theory Spec2Isabelle
  imports Complex_Main "HOL-Library.Sublist"
begin

section \<open>JavaScript string primitives\<close>

text \<open>
  Strings are byte lists (UTF-8). The built-ins the services call are modelled on them:
  \<^verbatim>\<open>toLowerCase\<close> folds the ASCII letters, \<^verbatim>\<open>\s\<close> is ASCII white space,
  \<^verbatim>\<open>includes\<close> is the substring test, \<^verbatim>\<open>split(/\s+/)\<close> cuts at every maximal run
  of white space (keeping the empty piece before a leading and after a trailing run),
  \<^verbatim>\<open>split(' ')\<close> cuts at every single blank.
\<close>

definition lower_table :: "(char \<times> char) list" where
  "lower_table = zip ''ABCDEFGHIJKLMNOPQRSTUVWXYZ'' ''abcdefghijklmnopqrstuvwxyz''"

definition lower_char :: "char \<Rightarrow> char" where
  "lower_char c = (case map_of lower_table c of Some d \<Rightarrow> d | None \<Rightarrow> c)"

definition toLowerCase :: "string \<Rightarrow> string" where
  "toLowerCase s = map lower_char s"

definition is_space :: "char \<Rightarrow> bool" where
  "is_space c = (c \<in> set [CHR '' '', CHR 0x09, CHR 0x0A, CHR 0x0B, CHR 0x0C, CHR 0x0D])"

definition trim :: "string \<Rightarrow> string" where
  "trim s = rev (dropWhile is_space (rev (dropWhile is_space s)))"

fun split_ws :: "string \<Rightarrow> string list" where
  "split_ws [] = [[]]"
| "split_ws (c # cs) =
     (if is_space c then
        (case cs of
           [] \<Rightarrow> [[], []]
         | d # ds \<Rightarrow> if is_space d then split_ws cs else [] # split_ws cs)
      else (case split_ws cs of
              [] \<Rightarrow> [[c]]
            | w # ws \<Rightarrow> (c # w) # ws))"


fun str_includes :: "string \<Rightarrow> string \<Rightarrow> bool" where
  "str_includes [] sub = (sub = [])"
| "str_includes (c # cs) sub = (prefix sub (c # cs) \<or> str_includes cs sub)"

text \<open>\<^verbatim>\<open>a || b\<close> on strings: the empty string is falsy.\<close>

definition or_str :: "string \<Rightarrow> string \<Rightarrow> string" where
  "or_str a b = (if a = [] then b else a)"

definition opt_or_str :: "string option \<Rightarrow> string \<Rightarrow> string" where
  "opt_or_str a b = (case a of None \<Rightarrow> b | Some s \<Rightarrow> or_str s b)"


section \<open>Catalog data model (data/tools.json)\<close>

record pricing =
  free :: bool
  premium :: "string option"

record deploy =
  available :: bool
  deploy_type :: string
  deploy_note :: string

record tool =
  tool_id :: string
  tool_name :: string
  bestFor :: string
  deploy :: "deploy option"
  limits :: "string option"
  pricing :: pricing
  whySuitsYou :: "string option"
  ease :: "int option"
  url :: string
  acceptsPrompt :: bool
  promptHint :: "string option"

record category =
  cat_name :: string
  icon :: string
  cat_keywords :: "string list option"
  tools :: "tool list"

record metadata =
  totalTools :: nat
  lastUpdated :: string

text \<open>
  The \<^verbatim>\<open>categories\<close> object is the list of its entries in \<^verbatim>\<open>Object.entries\<close> order;
  \<^verbatim>\<open>categories[key]\<close> is \<^const>\<open>map_of\<close> on it.
\<close>

record catalog =
  categories :: "(string \<times> category) list"
  metadata :: "metadata option"

datatype error = TypeError

text \<open>\<^verbatim>\<open>tool.ease || 3\<close>: an absent or zero ease counts as 3.\<close>

definition ease_or3 :: "tool \<Rightarrow> int" where
  "ease_or3 t = (case ease t of None \<Rightarrow> 3 | Some e \<Rightarrow> if e = 0 then 3 else e)"

text \<open>
  \<^verbatim>\<open>sort((a, b) => (b.ease || 3) - (a.ease || 3))\<close>: the stable sort by descending ease.
\<close>

definition sort_by_ease :: "tool list \<Rightarrow> tool list" where
  "sort_by_ease ts = sort_key (\<lambda>t. - ease_or3 t) ts"


section \<open>Recommendation engine (services/recommendation.js)\<close>

text \<open>A tool as it is returned: \<^verbatim>\<open>{...tool, category: category.name, categoryIcon: category.icon}\<close>.\<close>

record enriched =
  rec_tool :: tool
  rec_category :: string
  categoryIcon :: string

record recommendation =
  success :: bool
  source :: string
  res_category :: "string option"
  reasoning :: "string option"
  rec_tools :: "enriched list"

definition enrich :: "category \<Rightarrow> tool \<Rightarrow> enriched" where
  "enrich cat t = \<lparr>rec_tool = t, rec_category = cat_name cat, categoryIcon = icon cat\<rparr>"

definition intent_table :: "(string \<times> string) list" where
  "intent_table =
    [(''website'', ''building a website''),
     (''web'', ''building a website''),
     (''app'', ''building applications''),
     (''image'', ''working with images''),
     (''video'', ''video creation''),
     (''code'', ''coding and development''),
     (''write'', ''writing and content''),
     (''design'', ''design and graphics''),
     (''graphic'', ''design and graphics''),
     (''logo'', ''logo and branding''),
     (''present'', ''creating presentations''),
     (''music'', ''audio and music''),
     (''voice'', ''voice and audio''),
     (''research'', ''research and learning''),
     (''automate'', ''automation''),
     (''build'', ''building your project''),
     (''create'', ''creating your project''),
     (''edit'', ''editing content''),
     (''startup'', ''your startup project'')]"

definition extractKeyIntent :: "string \<Rightarrow> string" where
  "extractKeyIntent query =
     (case find (\<lambda>(keyword, intent). str_includes query keyword) intent_table of
        Some (keyword, intent) \<Rightarrow> intent
      | None \<Rightarrow> ''your project'')"

fun findToolById_in :: "(string \<times> category) list \<Rightarrow> string \<Rightarrow> enriched option" where
  "findToolById_in [] toolId = None"
| "findToolById_in ((key, cat) # rest) toolId =
     (case find (\<lambda>t. tool_id t = toolId) (tools cat) of
        Some t \<Rightarrow> Some (enrich cat t)
      | None \<Rightarrow> findToolById_in rest toolId)"

definition findToolById :: "catalog \<Rightarrow> string \<Rightarrow> enriched option" where
  "findToolById db toolId = findToolById_in (categories db) toolId"

definition getDefaultRecommendation :: "catalog \<Rightarrow> string \<Rightarrow> recommendation" where
  "getDefaultRecommendation db budgetType =
     (let generalTools =
            List.map_filter
              (\<lambda>found. case found of
                   None \<Rightarrow> None
                 | Some t \<Rightarrow>
                     if budgetType \<noteq> ''free'' \<or> free (pricing (rec_tool t)) then Some t else None)
              [findToolById db ''chatgpt'', findToolById db ''perplexity'', findToolById db ''canva'']
      in \<lparr>success = True, source = ''default'', res_category = Some ''General AI'',
          reasoning = Some ''Here are versatile AI tools that can help with many tasks.'',
          rec_tools = take 3 generalTools\<rparr>)"

text \<open>
  The score of one category in \<^verbatim>\<open>getFallbackRecommendation\<close>: the two loops of the source,
  over the category's keywords (and, inside, over the query's words) and over its tools.
  Iterating absent \<^verbatim>\<open>keywords\<close> throws.
\<close>

definition keyword_step :: "string \<Rightarrow> string list \<Rightarrow> int \<Rightarrow> string \<Rightarrow> int" where
  "keyword_step query words score keyword =
     (let score1 = (if str_includes query (toLowerCase keyword) then score + 10 else score)
      in foldl (\<lambda>s word.
                  if str_includes (toLowerCase keyword) word \<or> str_includes word (toLowerCase keyword)
                  then s + 3 else s) score1 words)"

definition tool_step :: "string \<Rightarrow> int \<Rightarrow> tool \<Rightarrow> int" where
  "tool_step query score t =
     (let score1 = (if str_includes query (toLowerCase (tool_name t)) then score + 15 else score)
      in if str_includes query (toLowerCase (bestFor t)) then score1 + 5 else score1)"

definition category_score :: "string \<Rightarrow> string list \<Rightarrow> category \<Rightarrow> error + int" where
  "category_score query words cat =
     (case cat_keywords cat of
        None \<Rightarrow> Inl TypeError
      | Some kws \<Rightarrow>
          Inr (foldl (tool_step query) (foldl (keyword_step query words) 0 kws) (tools cat)))"

text \<open>
  \<^verbatim>\<open>categoryScores\<close>: the categories with a positive score, in catalog order; the first
  category that cannot be scored aborts the loop.
\<close>

fun categoryScores :: "string \<Rightarrow> string list \<Rightarrow> (string \<times> category) list
    \<Rightarrow> error + (string \<times> int \<times> category) list" where
  "categoryScores query words [] = Inr []"
| "categoryScores query words ((categoryKey, cat) # rest) =
     (case category_score query words cat of
        Inl e \<Rightarrow> Inl e
      | Inr score \<Rightarrow>
          (case categoryScores query words rest of
             Inl e \<Rightarrow> Inl e
           | Inr scored \<Rightarrow>
               Inr (if score > 0 then (categoryKey, score, cat) # scored else scored)))"

definition budget_filter :: "string \<Rightarrow> tool list \<Rightarrow> tool list" where
  "budget_filter budgetType ts =
     filter (\<lambda>t. if budgetType = ''free'' then free (pricing t) = True else True) ts"

definition getFallbackRecommendation :: "catalog \<Rightarrow> string \<Rightarrow> string \<Rightarrow> error + recommendation" where
  "getFallbackRecommendation db userQuery budgetType =
     (let query = toLowerCase userQuery;
          words = split_ws query
      in case categoryScores query words (categories db) of
           Inl e \<Rightarrow> Inl e
         | Inr scored \<Rightarrow>
             (case sort_key (\<lambda>(k, score, cat). - score) scored of
                [] \<Rightarrow> Inr (getDefaultRecommendation db budgetType)
              | (bestCategoryKey, bestScore, cat) # others \<Rightarrow>
                  Inr \<lparr>success = True, source = ''fallback'', res_category = Some (cat_name cat),
                       reasoning = Some (''Based on your query about '' @ [CHR 0x22]
                         @ extractKeyIntent query @ [CHR 0x22]
                         @ '', these tools are best suited for your needs.''),
                       rec_tools = map (enrich cat)
                         (take 3 (sort_by_ease (budget_filter budgetType (tools cat))))\<rparr>))"

definition getToolsFromCategory :: "catalog \<Rightarrow> string \<Rightarrow> string \<Rightarrow> string
    \<Rightarrow> error + recommendation" where
  "getToolsFromCategory db categoryKey budgetType userQuery =
     (case map_of (categories db) categoryKey of
        None \<Rightarrow> getFallbackRecommendation db userQuery budgetType
      | Some cat \<Rightarrow>
          Inr \<lparr>success = True, source = ''ai_category'', res_category = Some (cat_name cat),
               reasoning = Some (''Here are the best '' @ budgetType @ '' tools for ''
                 @ extractKeyIntent (toLowerCase userQuery) @ '':''),
               rec_tools = map (enrich cat)
                 (take 3 (sort_by_ease (budget_filter budgetType (tools cat))))\<rparr>)"

fun getToolsByIds :: "catalog \<Rightarrow> string list \<Rightarrow> string \<Rightarrow> enriched list" where
  "getToolsByIds db [] budgetType = []"
| "getToolsByIds db (toolId # rest) budgetType =
     (case findToolById db toolId of
        None \<Rightarrow> getToolsByIds db rest budgetType
      | Some t \<Rightarrow>
          if budgetType = ''free'' \<and> \<not> free (pricing (rec_tool t))
          then getToolsByIds db rest budgetType
          else t # getToolsByIds db rest budgetType)"

text \<open>The parsed reply of the Gemini strategy: \<^verbatim>\<open>{category, tools, reasoning}\<close>.\<close>

record gemini_response =
  g_category :: "string option"
  g_tools :: "string list option"
  g_reasoning :: "string option"

definition enrichRecommendations :: "catalog \<Rightarrow> gemini_response \<Rightarrow> string \<Rightarrow> recommendation" where
  "enrichRecommendations db geminiResponse budgetType =
     (let toolIds = (case g_tools geminiResponse of None \<Rightarrow> [] | Some ids \<Rightarrow> ids);
          recommendations =
            concat (map (\<lambda>(categoryKey, cat).
                      map (enrich cat)
                        (filter (\<lambda>t. tool_id t \<in> set toolIds
                                   \<and> \<not> (budgetType = ''free'' \<and> \<not> free (pricing t)))
                           (tools cat)))
                    (categories db))
      in \<lparr>success = True, source = ''gemini'', res_category = g_category geminiResponse,
          reasoning = g_reasoning geminiResponse, rec_tools = take 3 recommendations\<rparr>)"

text \<open>
  The Gemini call (prompt built from the query, the budget and the catalog) is the external
  completion capability: it throws, answers without a JSON object, or answers with one.
\<close>

datatype gemini_reply = GeminiThrows | GeminiUnparsable | GeminiParsed gemini_response

type_synonym gemini = "catalog \<Rightarrow> string \<Rightarrow> string \<Rightarrow> gemini_reply"

definition getGeminiRecommendation :: "gemini \<Rightarrow> catalog \<Rightarrow> string \<Rightarrow> string
    \<Rightarrow> error + recommendation option" where
  "getGeminiRecommendation model db userQuery budgetType =
     (case model db userQuery budgetType of
        GeminiThrows \<Rightarrow> Inl TypeError
      | GeminiUnparsable \<Rightarrow> Inr None
      | GeminiParsed parsed \<Rightarrow> Inr (Some (enrichRecommendations db parsed budgetType)))"

definition getRecommendations :: "gemini option \<Rightarrow> catalog \<Rightarrow> string \<Rightarrow> string
    \<Rightarrow> string option \<Rightarrow> error + recommendation" where
  "getRecommendations genAI db userQuery budgetType cat =
     (case (case cat of None \<Rightarrow> None
            | Some c \<Rightarrow> if c \<noteq> [] \<and> map_of (categories db) c \<noteq> None then Some c else None) of
        Some c \<Rightarrow> getToolsFromCategory db c budgetType userQuery
      | None \<Rightarrow>
          (case (case genAI of
                   None \<Rightarrow> None
                 | Some model \<Rightarrow>
                     (case getGeminiRecommendation model db userQuery budgetType of
                        Inr (Some result) \<Rightarrow> if rec_tools result \<noteq> [] then Some result else None
                      | _ \<Rightarrow> None)) of
             Some result \<Rightarrow> Inr result
           | None \<Rightarrow> getFallbackRecommendation db userQuery budgetType))"



section \<open>Intent matcher (services/intelligence.js)\<close>

text \<open>
  A tool of \<^verbatim>\<open>allToolsFlat\<close>: the catalog tool with its category's key, name and keywords
  and the lowercased text that the keyword search reads.
\<close>

record flat_tool =
  ft_tool :: tool
  categoryKey :: string
  categoryName :: string
  categoryKeywords :: "string list"
  searchText :: string




















section \<open>The scoring algorithm as the specification words it (\<section>4.1, steps 2 and 3)\<close>




definition first_occurrences :: "'a list \<Rightarrow> 'a list" where
  "first_occurrences xs = rev (remdups (rev xs))"







section \<open>The keyword fallback of the recommendation engine, in words\<close>




section \<open>Conversation handler (getGroqResponse)\<close>





subsection \<open>The version with the budget short-circuit (unnamed source file)\<close>















subsection \<open>The version of services/recommendation.js\<close>






section \<open>Discovery pipeline (services/scraper.js)\<close>

text \<open>
  What \<^verbatim>\<open>analyzeToolUrl\<close> extracts from a page (and, in a directory scrape, the listing's
  \<^verbatim>\<open>name\<close>). An absent field and an empty string are both falsy, so absent is \<open>''''\<close>.
\<close>

record raw_data =
  rd_name :: string
  rd_url :: string
  rd_title :: string
  rd_description :: string
  headline :: string
  subheadlines :: "string list"
  pricingHints :: string
  rawSnippet :: string

text \<open>The structured entry a classification produces.\<close>

record classified =
  isAITool :: bool
  c_id :: string
  c_name :: string
  c_bestFor :: string
  c_category :: string
  c_deploy :: "deploy option"
  c_limits :: "string option"
  c_pricing :: pricing
  c_whySuitsYou :: "string option"
  c_ease :: "int option"
  c_url :: string
  c_acceptsPrompt :: bool
  c_promptHint :: "string option"

text \<open>
  The external capabilities: the page fetch (\<^verbatim>\<open>analyzeToolUrl\<close>, \<open>None\<close> when the page cannot
  be read), the Groq classification (absent without an API key; given the catalog's
  categories and the page data it throws or answers with a JSON object, where a missing
  \<^verbatim>\<open>isAITool\<close> is false) and \<^verbatim>\<open>JSON.stringify\<close>.
\<close>

datatype groq_reply = GroqThrows | GroqJson classified

record capabilities =
  fetch :: "string \<Rightarrow> raw_data option"
  groq :: "((string \<times> string) list \<Rightarrow> raw_data \<Rightarrow> groq_reply) option"
  stringify :: "raw_data \<Rightarrow> string"

text \<open>
  The two files: \<^verbatim>\<open>tools.json\<close> and \<^verbatim>\<open>discovered.json\<close>. A file that is missing or is
  not JSON is \<open>None\<close>; a write to a file that is not writable throws.
\<close>

record discovery_record =
  d_id :: string
  d_name :: string
  d_category :: string
  discoveredAt :: string
  d_url :: string

record discovered =
  d_tools :: "discovery_record list"
  lastScrape :: "string option"
  totalDiscovered :: nat

record disk =
  toolsFile :: "catalog option"
  toolsWritable :: bool
  discoveredFile :: "discovered option"
  discoveredWritable :: bool

record discover_result =
  dr_success :: bool
  dr_error :: "string option"
  dr_name :: "string option"
  dr_tool :: "classified option"

definition getExistingToolIds :: "disk \<Rightarrow> error + string list" where
  "getExistingToolIds d =
     (case toolsFile d of
        None \<Rightarrow> Inl TypeError
      | Some db \<Rightarrow>
          Inr (concat (map (\<lambda>(key, cat).
                 concat (map (\<lambda>t. [tool_id t, toLowerCase (tool_name t)]) (tools cat)))
               (categories db))))"

definition getExistingCategories :: "disk \<Rightarrow> error + (string \<times> string) list" where
  "getExistingCategories d =
     (case toolsFile d of
        None \<Rightarrow> Inl TypeError
      | Some db \<Rightarrow> Inr (map (\<lambda>(key, cat). (key, cat_name cat)) (categories db)))"

definition categoryKeywords :: "(string \<times> string list) list" where
  "categoryKeywords =
    [(''app_building'', [''app'', ''website'', ''build'', ''deploy'', ''full-stack'', ''no-code'']),
     (''image_generation'', [''image'', ''picture'', ''generate'', ''art'', ''illustration'']),
     (''image_editing'', [''edit'', ''photo'', ''retouch'', ''background'', ''enhance'']),
     (''video_creation'', [''video'', ''animation'', ''clip'', ''movie'', ''reel'']),
     (''coding_assistance'', [''code'', ''programming'', ''developer'', ''ide'', ''debug'']),
     (''writing'', [''write'', ''content'', ''blog'', ''article'', ''copy'']),
     (''design'', [''design'', ''graphic'', ''logo'', ''ui'', ''template'']),
     (''presentation'', [''presentation'', ''slide'', ''deck'', ''pitch'']),
     (''audio'', [''audio'', ''music'', ''voice'', ''sound'', ''speech''])]"

definition keyword_category_step :: "string \<Rightarrow> string \<times> int \<Rightarrow> string \<times> string list
    \<Rightarrow> string \<times> int" where
  "keyword_category_step text acc entry =
     (case acc of (bestCategory, bestScore) \<Rightarrow>
        (case entry of (cat, kws) \<Rightarrow>
           (let score = foldl (\<lambda>s keyword. if str_includes text keyword then s + 1 else s) 0 kws
            in if score > bestScore then (cat, score) else (bestCategory, bestScore))))"

text \<open>
  \<^verbatim>\<open>replace(/[^a-z0-9]/g, '_').replace(/_+/g, '_')\<close>: every other character becomes an
  underscore, then every run of underscores becomes one.
\<close>

definition is_id_char :: "char \<Rightarrow> bool" where
  "is_id_char c = (c \<in> set ''abcdefghijklmnopqrstuvwxyz0123456789'')"

fun collapse_underscores :: "string \<Rightarrow> string" where
  "collapse_underscores (a # b # cs) =
     (if a = CHR ''_'' \<and> b = CHR ''_'' then collapse_underscores (b # cs)
      else a # collapse_underscores (b # cs))"
| "collapse_underscores cs = cs"

definition make_id :: "string \<Rightarrow> string" where
  "make_id name =
     collapse_underscores (map (\<lambda>c. if is_id_char c then c else CHR ''_'') (toLowerCase name))"

definition basicCategorize :: "(raw_data \<Rightarrow> string) \<Rightarrow> raw_data \<Rightarrow> classified" where
  "basicCategorize to_json toolData =
     (let text = toLowerCase (to_json toolData);
          bestCategory = fst (foldl (keyword_category_step text) (''coding_assistance'', 0)
                                categoryKeywords)
      in \<lparr>isAITool = True,
          c_id = make_id (or_str (rd_name toolData) ''unknown''),
          c_name = or_str (rd_name toolData) (or_str (rd_title toolData) ''Unknown Tool''),
          c_bestFor = or_str (rd_description toolData) ''AI tool'',
          c_category = bestCategory,
          c_deploy = Some \<lparr>available = False, deploy_type = ''N/A'', deploy_note = ''Check website''\<rparr>,
          c_limits = Some ''Check website for free tier details'',
          c_pricing = \<lparr>free = True, premium = None\<rparr>,
          c_whySuitsYou = Some (or_str (rd_description toolData)
            ''An AI tool that might help with your project''),
          c_ease = Some 3,
          c_url = or_str (rd_url toolData) ''#'',
          c_acceptsPrompt = False,
          c_promptHint = None\<rparr>)"

text \<open>
  \<^verbatim>\<open>categorizeWithAI\<close>: \<open>None\<close> is the \<^verbatim>\<open>null\<close> returned for a candidate that is not an AI
  tool. The categories are read before the \<^verbatim>\<open>try\<close>, so an unreadable catalog throws.
\<close>

definition categorizeWithAI :: "capabilities \<Rightarrow> disk \<Rightarrow> raw_data \<Rightarrow> error + classified option" where
  "categorizeWithAI cap d toolData =
     (case groq cap of
        None \<Rightarrow> Inr (Some (basicCategorize (stringify cap) toolData))
      | Some classify \<Rightarrow>
          (case getExistingCategories d of
             Inl e \<Rightarrow> Inl e
           | Inr existingCategories \<Rightarrow>
               (case classify existingCategories toolData of
                  GroqThrows \<Rightarrow> Inr (Some (basicCategorize (stringify cap) toolData))
                | GroqJson result \<Rightarrow>
                    if \<not> isAITool result then Inr None else Inr (Some result))))"

text \<open>
  \<^verbatim>\<open>addToolToDatabase\<close>. The new entry goes to the end of the tools of the category
  \<^verbatim>\<open>data.categories[tool.category]\<close>; the total is then the sum over all categories.
\<close>

definition toolEntry :: "classified \<Rightarrow> tool" where
  "toolEntry t =
     \<lparr>tool_id = c_id t, tool_name = c_name t, bestFor = c_bestFor t, deploy = c_deploy t,
      limits = c_limits t, pricing = c_pricing t, whySuitsYou = c_whySuitsYou t,
      ease = c_ease t, url = c_url t, acceptsPrompt = c_acceptsPrompt t,
      promptHint = (if c_acceptsPrompt t
                    then Some (opt_or_str (c_promptHint t) ''Describe what you want to create'')
                    else None)\<rparr>"

fun push_tool :: "string \<Rightarrow> tool \<Rightarrow> (string \<times> category) list \<Rightarrow> (string \<times> category) list" where
  "push_tool key entry [] = []"
| "push_tool key entry ((k, cat) # rest) =
     (if k = key then (k, cat\<lparr>tools := tools cat @ [entry]\<rparr>) # rest
      else (k, cat) # push_tool key entry rest)"

definition count_tools :: "(string \<times> category) list \<Rightarrow> nat" where
  "count_tools cats = foldl (\<lambda>sum (key, cat). sum + length (tools cat)) 0 cats"

definition today :: "string \<Rightarrow> string" where
  "today now = takeWhile (\<lambda>c. c \<noteq> CHR ''T'') now"

definition addToolToDatabase :: "string \<Rightarrow> disk \<Rightarrow> classified \<Rightarrow> bool \<times> disk" where
  "addToolToDatabase now d t =
     (case toolsFile d of
        None \<Rightarrow> (False, d)
      | Some data \<Rightarrow>
          (case map_of (categories data) (c_category t) of
             None \<Rightarrow> (False, d)
           | Some cat \<Rightarrow>
               (case find (\<lambda>e. tool_id e = c_id t) (tools cat) of
                  Some existing \<Rightarrow> (False, d)
                | None \<Rightarrow>
                    (let cats = push_tool (c_category t) (toolEntry t) (categories data)
                     in case metadata data of
                          None \<Rightarrow> (False, d)
                        | Some md \<Rightarrow>
                            if toolsWritable d
                            then (True, d\<lparr>toolsFile := Some \<lparr>categories = cats,
                                     metadata = Some (md\<lparr>totalTools := count_tools cats,
                                                         lastUpdated := today now\<rparr>)\<rparr>\<rparr>)
                            else (False, d)))))"

definition logDiscovery :: "string \<Rightarrow> disk \<Rightarrow> classified \<Rightarrow> disk" where
  "logDiscovery now d t =
     (case discoveredFile d of
        None \<Rightarrow> d
      | Some discovered \<Rightarrow>
          (let entries = d_tools discovered @ [\<lparr>d_id = c_id t, d_name = c_name t,
                 d_category = c_category t, discoveredAt = now, d_url = c_url t\<rparr>]
           in if discoveredWritable d
              then d\<lparr>discoveredFile := Some \<lparr>d_tools = entries, lastScrape = Some now,
                       totalDiscovered = length entries\<rparr>\<rparr>
              else d))"

text \<open>
  The name the duplicate check reads off the page title:
  the lowercased title up to its first hyphen, en dash (the bytes E2 80 93) or vertical
  bar, trimmed.
\<close>

fun title_head :: "string \<Rightarrow> string" where
  "title_head [] = []"
| "title_head (c # cs) =
     (if c = CHR ''-'' \<or> c = CHR ''|'' \<or> (c = CHR 0xE2 \<and> take 2 cs = [CHR 0x80, CHR 0x93])
      then [] else c # title_head cs)"

definition failed :: "string \<Rightarrow> discover_result" where
  "failed msg = \<lparr>dr_success = False, dr_error = Some msg, dr_name = None, dr_tool = None\<rparr>"

definition discoverToolByUrl :: "capabilities \<Rightarrow> string \<Rightarrow> disk \<Rightarrow> string
    \<Rightarrow> error + discover_result \<times> disk" where
  "discoverToolByUrl cap now d u =
     (case getExistingToolIds d of
        Inl e \<Rightarrow> Inl e
      | Inr existingIds \<Rightarrow>
          (case fetch cap u of
             None \<Rightarrow> Inr (failed ''Could not access the website'', d)
           | Some rawData \<Rightarrow>
               (let toolName = trim (title_head (toLowerCase (rd_title rawData)))
                in if toolName \<in> set existingIds
                   then Inr ((failed ''Tool already exists in database'')\<lparr>dr_name := Some toolName\<rparr>, d)
                   else (case categorizeWithAI cap d rawData of
                           Inl e \<Rightarrow> Inl e
                         | Inr None \<Rightarrow> Inr (failed ''Not identified as an AI tool'', d)
                         | Inr (Some categorized) \<Rightarrow>
                             (case addToolToDatabase now d categorized of
                                (True, d') \<Rightarrow>
                                  Inr (\<lparr>dr_success = True, dr_error = None, dr_name = None,
                                        dr_tool = Some categorized\<rparr>,
                                       logDiscovery now d' categorized)
                              | (False, d') \<Rightarrow> Inr (failed ''Failed to add to database'', d'))))))"

text \<open>All tool ids of a catalog, category by category.\<close>

definition catalog_ids :: "catalog \<Rightarrow> string list" where
  "catalog_ids db = concat (map (\<lambda>(key, cat). map tool_id (tools cat)) (categories db))"

section \<open>Example catalog\<close>

definition mk_tool :: "string \<Rightarrow> string \<Rightarrow> string \<Rightarrow> bool \<Rightarrow> int \<Rightarrow> tool" where
  "mk_tool i n b f e =
     \<lparr>tool_id = i, tool_name = n, bestFor = b, deploy = None, limits = None,
      pricing = \<lparr>free = f, premium = (if f then None else Some ''$10/month'')\<rparr>,
      whySuitsYou = None, ease = Some e, url = ''https://'' @ i @ ''.example'',
      acceptsPrompt = False, promptHint = None\<rparr>"

definition midjourney :: tool where
  "midjourney = mk_tool ''midjourney'' ''Midjourney'' ''Artistic images'' False 5"

definition ideogram :: tool where
  "ideogram = mk_tool ''ideogram'' ''Ideogram'' ''Text in images'' True 4"

definition chatgpt :: tool where
  "chatgpt = mk_tool ''chatgpt'' ''ChatGPT'' ''General assistant'' True 5"

definition cursor :: tool where
  "cursor = mk_tool ''cursor'' ''Cursor'' ''AI code editor'' False 3"

definition lovable :: tool where
  "lovable = mk_tool ''lovable'' ''Lovable'' ''Full-stack web apps'' True 5"

definition bolt :: tool where
  "bolt = mk_tool ''bolt'' ''Bolt'' ''Web apps in the browser'' True 4"

definition looka :: tool where
  "looka = mk_tool ''looka'' ''Looka'' ''Logo maker'' False 5"

definition canva_design :: tool where
  "canva_design = mk_tool ''canva_design'' ''Canva'' ''Graphics and posters'' True 5"

definition figma :: tool where
  "figma = mk_tool ''figma'' ''Figma'' ''Interface design'' True 3"

definition canva :: tool where
  "canva = mk_tool ''canva'' ''Canva'' ''Photo editing'' True 5"

definition grammarly :: tool where
  "grammarly = mk_tool ''grammarly'' ''Grammarly'' ''Grammar checking'' True 5"

definition image_editing :: category where
  "image_editing = \<lparr>cat_name = ''Image Editing'', icon = ''edit'',
     cat_keywords = Some [''edit'', ''photo''], tools = [canva]\<rparr>"

definition writing :: category where
  "writing = \<lparr>cat_name = ''Writing'', icon = ''pen'',
     cat_keywords = Some [''write'', ''blog''], tools = [grammarly]\<rparr>"

definition app_building :: category where
  "app_building = \<lparr>cat_name = ''App Building'', icon = ''app'',
     cat_keywords = Some [''app'', ''website''], tools = [lovable, bolt]\<rparr>"

definition design :: category where
  "design = \<lparr>cat_name = ''Design'', icon = ''art'',
     cat_keywords = Some [''design'', ''logo''], tools = [figma, looka, canva_design]\<rparr>"

definition image_generation :: category where
  "image_generation = \<lparr>cat_name = ''Image Generation'', icon = ''img'',
     cat_keywords = Some [''image'', ''picture''], tools = [midjourney, ideogram]\<rparr>"

definition coding_assistance :: category where
  "coding_assistance = \<lparr>cat_name = ''Coding'', icon = ''code'',
     cat_keywords = Some [''code'', ''programming''], tools = [cursor, chatgpt]\<rparr>"

definition demo_catalog :: catalog where
  "demo_catalog = \<lparr>categories = [(''app_building'', app_building),
       (''image_generation'', image_generation),
       (''image_editing'', image_editing),
       (''coding_assistance'', coding_assistance),
       (''writing'', writing),
       (''design'', design)],
     metadata = Some \<lparr>totalTools = 11, lastUpdated = ''2026-01-01''\<rparr>\<rparr>"


definition demo_reply :: gemini_response where
  "demo_reply = \<lparr>g_category = Some ''Image Generation'',
     g_tools = Some [''midjourney'', ''ideogram''], g_reasoning = Some ''Both draw.''\<rparr>"



section \<open>Example pages and capabilities\<close>

definition mk_page :: "string \<Rightarrow> string \<Rightarrow> string \<Rightarrow> raw_data" where
  "mk_page u title description =
     \<lparr>rd_name = [], rd_url = u, rd_title = title, rd_description = description,
      headline = title, subheadlines = [], pricingHints = [], rawSnippet = description\<rparr>"

definition canva_page :: raw_data where
  "canva_page = mk_page ''https://www.canva.com'' ''Canva: Visual Suite for Everyone''
     ''Design posters, logos and presentations''"

definition example_page :: raw_data where
  "example_page = mk_page ''https://example.com'' ''Example Domain''
     ''This domain is for use in documentation''"

definition canva_entry :: classified where
  "canva_entry = \<lparr>isAITool = True, c_id = ''canva'', c_name = ''Canva'',
     c_bestFor = ''Design for everyone'', c_category = ''design'', c_deploy = None,
     c_limits = Some ''Free plan'', c_pricing = \<lparr>free = True, premium = Some ''$15/month''\<rparr>,
     c_whySuitsYou = Some ''Templates for everything'', c_ease = Some 5,
     c_url = ''https://www.canva.com'', c_acceptsPrompt = False, c_promptHint = None\<rparr>"

definition not_a_tool :: classified where
  "not_a_tool = canva_entry\<lparr>isAITool := False, c_id := ''example'', c_name := ''Example''\<rparr>"

definition demo_fetch :: "string \<Rightarrow> raw_data option" where
  "demo_fetch u =
     (if u = ''https://www.canva.com'' then Some canva_page
      else if u = ''https://example.com'' then Some example_page
      else None)"

definition demo_groq :: "(string \<times> string) list \<Rightarrow> raw_data \<Rightarrow> groq_reply" where
  "demo_groq cats page =
     (if rd_url page = ''https://www.canva.com'' then GroqJson canva_entry
      else GroqJson not_a_tool)"

definition demo_stringify :: "raw_data \<Rightarrow> string" where
  "demo_stringify page = rd_title page @ '' '' @ rd_description page"

definition demo_caps :: capabilities where
  "demo_caps = \<lparr>fetch = demo_fetch, groq = Some demo_groq, stringify = demo_stringify\<rparr>"

definition offline_caps :: capabilities where
  "offline_caps = \<lparr>fetch = demo_fetch, groq = None, stringify = demo_stringify\<rparr>"

definition demo_disk :: disk where
  "demo_disk = \<lparr>toolsFile = Some demo_catalog, toolsWritable = True,
     discoveredFile = Some \<lparr>d_tools = [], lastScrape = None, totalDiscovered = 0\<rparr>,
     discoveredWritable = True\<rparr>"

text \<open>The same catalog with a total that has drifted from the real count.\<close>

definition drifted_disk :: disk where
  "drifted_disk = demo_disk\<lparr>toolsFile :=
     Some (demo_catalog\<lparr>metadata := Some \<lparr>totalTools = 3, lastUpdated = ''2025-12-31''\<rparr>\<rparr>)\<rparr>"


section \<open>Example conversations\<close>







section \<open>Budget filtering\<close>


lemma budget_filter_free: "t \<in> set (budget_filter ''free'' ts) \<Longrightarrow> free (pricing t)"
  by (simp add: budget_filter_def)

lemma top3_free:
  "r \<in> set (map (enrich cat) (take 3 (sort_by_ease (budget_filter ''free'' ts))))
   \<Longrightarrow> free (pricing (rec_tool r))"
proof -
  assume "r \<in> set (map (enrich cat) (take 3 (sort_by_ease (budget_filter ''free'' ts))))"
  then obtain t where t: "t \<in> set (take 3 (sort_by_ease (budget_filter ''free'' ts)))"
    and r: "r = enrich cat t" by auto
  from t have "t \<in> set (sort_by_ease (budget_filter ''free'' ts))" by (rule in_set_takeD)
  then have "t \<in> set (budget_filter ''free'' ts)" by (simp add: sort_by_ease_def)
  then have "free (pricing t)" by (rule budget_filter_free)
  with r show ?thesis by (simp add: enrich_def)
qed

lemma getDefaultRecommendation_free:
  "r \<in> set (rec_tools (getDefaultRecommendation db ''free'')) \<Longrightarrow> free (pricing (rec_tool r))"
  by (auto simp: getDefaultRecommendation_def Let_def List.map_filter_def
      dest!: in_set_takeD split: option.splits if_splits)

lemma getFallbackRecommendation_free:
  assumes "getFallbackRecommendation db q ''free'' = Inr res" "r \<in> set (rec_tools res)"
  shows "free (pricing (rec_tool r))"
proof (cases "categoryScores (toLowerCase q) (split_ws (toLowerCase q)) (categories db)")
  case (Inl e)
  with assms show ?thesis by (simp add: getFallbackRecommendation_def Let_def)
next
  case (Inr scored)
  show ?thesis
  proof (cases "sort_key (\<lambda>(k, score, cat). - score) scored")
    case Nil
    with Inr assms have "res = getDefaultRecommendation db ''free''"
      by (simp add: getFallbackRecommendation_def Let_def)
    with assms(2) show ?thesis by (simp add: getDefaultRecommendation_free)
  next
    case (Cons best others)
    obtain k s cat where "best = (k, s, cat)" by (cases best)
    with Cons Inr assms
    have "r \<in> set (map (enrich cat) (take 3 (sort_by_ease (budget_filter ''free'' (tools cat)))))"
      by (auto simp: getFallbackRecommendation_def Let_def)
    then show ?thesis by (rule top3_free)
  qed
qed

lemma getToolsFromCategory_free:
  assumes "getToolsFromCategory db key ''free'' q = Inr res" "r \<in> set (rec_tools res)"
  shows "free (pricing (rec_tool r))"
proof (cases "map_of (categories db) key")
  case None
  with assms(1) have "getFallbackRecommendation db q ''free'' = Inr res"
    by (simp add: getToolsFromCategory_def)
  then show ?thesis using assms(2) by (rule getFallbackRecommendation_free)
next
  case (Some cat)
  with assms
  have "r \<in> set (map (enrich cat) (take 3 (sort_by_ease (budget_filter ''free'' (tools cat)))))"
    by (auto simp: getToolsFromCategory_def)
  then show ?thesis by (rule top3_free)
qed

lemma enrichRecommendations_free:
  "r \<in> set (rec_tools (enrichRecommendations db g ''free'')) \<Longrightarrow> free (pricing (rec_tool r))"
  by (auto simp: enrichRecommendations_def Let_def enrich_def dest!: in_set_takeD)

lemma getToolsByIds_free:
  "r \<in> set (getToolsByIds db ids ''free'') \<Longrightarrow> free (pricing (rec_tool r))"
  by (induction ids) (auto split: option.splits if_splits)

lemma getRecommendations_free:
  assumes "getRecommendations genAI db q ''free'' c = Inr res" "r \<in> set (rec_tools res)"
  shows "free (pricing (rec_tool r))"
  using assms
  by (auto simp: getRecommendations_def getGeminiRecommendation_def
      split: option.splits if_splits sum.splits gemini_reply.splits
      dest: getToolsFromCategory_free getFallbackRecommendation_free enrichRecommendations_free)

text \<open>
  Claim C1. A tool whose \<^verbatim>\<open>pricing.free\<close> is false is in no tools list returned for the
  budget \<^verbatim>\<open>'free'\<close>: not from \<^const>\<open>getToolsFromCategory\<close>, \<^const>\<open>enrichRecommendations\<close>,
  \<^const>\<open>getFallbackRecommendation\<close>, \<^const>\<open>getDefaultRecommendation\<close> or \<^const>\<open>getToolsByIds\<close>,
  and so not from \<^const>\<open>getRecommendations\<close>, which only chains them.
\<close>

theorem free_budget_excludes_paid_tools:
  assumes "\<not> free (pricing t)"
  shows "(\<forall>res. getToolsFromCategory db key ''free'' q = Inr res
            \<longrightarrow> t \<notin> rec_tool ` set (rec_tools res))
       \<and> t \<notin> rec_tool ` set (rec_tools (enrichRecommendations db g ''free''))
       \<and> (\<forall>res. getFallbackRecommendation db q ''free'' = Inr res
            \<longrightarrow> t \<notin> rec_tool ` set (rec_tools res))
       \<and> t \<notin> rec_tool ` set (rec_tools (getDefaultRecommendation db ''free''))
       \<and> t \<notin> rec_tool ` set (getToolsByIds db ids ''free'')
       \<and> (\<forall>res. getRecommendations genAI db q ''free'' c = Inr res
            \<longrightarrow> t \<notin> rec_tool ` set (rec_tools res))"
  using assms
  by (auto dest: getToolsFromCategory_free enrichRecommendations_free
      getFallbackRecommendation_free getDefaultRecommendation_free getToolsByIds_free
      getRecommendations_free)


theorem free_budget_excludes_paid_tools_witness:
  "\<not> free (pricing midjourney)
   \<and> (\<exists>res. getToolsFromCategory demo_catalog ''image_generation'' ''free'' ''draw a picture''
          = Inr res
        \<and> map (tool_id \<circ> rec_tool) (rec_tools res) = [''ideogram'']
        \<and> midjourney \<notin> rec_tool ` set (rec_tools res))
   \<and> midjourney \<notin> rec_tool ` set (rec_tools (enrichRecommendations demo_catalog demo_reply ''free''))
   \<and> (\<exists>res. getFallbackRecommendation demo_catalog ''draw a picture'' ''free'' = Inr res
        \<and> map (tool_id \<circ> rec_tool) (rec_tools res) = [''ideogram'']
        \<and> midjourney \<notin> rec_tool ` set (rec_tools res))
   \<and> midjourney \<notin> rec_tool ` set (rec_tools (getDefaultRecommendation demo_catalog ''free''))
   \<and> midjourney \<notin> rec_tool ` set (getToolsByIds demo_catalog [''midjourney'', ''chatgpt''] ''free'')
   \<and> (\<exists>res. getRecommendations (Some (\<lambda>db q b. GeminiParsed demo_reply)) demo_catalog
          ''draw a picture'' ''free'' None = Inr res
        \<and> map (tool_id \<circ> rec_tool) (rec_tools res) = [''ideogram'']
        \<and> midjourney \<notin> rec_tool ` set (rec_tools res))"
proof -
  have paid: "\<not> free (pricing midjourney)"
    by (simp add: midjourney_def mk_tool_def)
  have a: "case getToolsFromCategory demo_catalog ''image_generation'' ''free'' ''draw a picture'' of
             Inl e \<Rightarrow> False
           | Inr res \<Rightarrow> map (tool_id \<circ> rec_tool) (rec_tools res) = [''ideogram'']"
    by code_simp
  have b: "case getFallbackRecommendation demo_catalog ''draw a picture'' ''free'' of
             Inl e \<Rightarrow> False
           | Inr res \<Rightarrow> map (tool_id \<circ> rec_tool) (rec_tools res) = [''ideogram'']"
    by code_simp
  have c: "case getRecommendations (Some (\<lambda>db q b. GeminiParsed demo_reply)) demo_catalog
               ''draw a picture'' ''free'' None of
             Inl e \<Rightarrow> False
           | Inr res \<Rightarrow> map (tool_id \<circ> rec_tool) (rec_tools res) = [''ideogram'']"
    by code_simp
  note excl = free_budget_excludes_paid_tools [OF paid, of demo_catalog "''image_generation''"
      "''draw a picture''" demo_reply "[''midjourney'', ''chatgpt'']"
      "Some (\<lambda>db q b. GeminiParsed demo_reply)" None]
  show ?thesis
    using paid a b c excl by (auto split: sum.splits)
qed

section \<open>The intent matcher and the scoring algorithm\<close>

subsection \<open>White space and substrings\<close>














lemma lower_char_idem: "lower_char (lower_char c) = lower_char c"
  by (simp add: lower_char_def lower_table_def)

lemma toLowerCase_idem: "toLowerCase (toLowerCase s) = toLowerCase s"
  by (simp add: toLowerCase_def lower_char_idem)

lemma lower_char_space: "is_space (lower_char c) \<longleftrightarrow> is_space c"
  by (simp add: lower_char_def lower_table_def is_space_def)



subsection \<open>The score of a pattern\<close>







subsection \<open>The best pattern\<close>


subsection \<open>The tools of a pattern\<close>


lemma set_first_occurrences [simp]: "set (first_occurrences xs) = set xs"
  by (simp add: first_occurrences_def)







subsection \<open>The keyword search\<close>





















section \<open>The keyword fallback of the recommendation engine\<close>
















section \<open>The discovery pipeline\<close>

lemma foldl_count_tools:
  "foldl (\<lambda>sum (key, cat). sum + length (tools cat)) a cats
     = a + sum_list (map (\<lambda>(key, cat). length (tools cat)) cats)"
  by (induction cats arbitrary: a) (auto simp: split_def)

lemma count_tools_sum:
  "count_tools cats = sum_list (map (\<lambda>(key, cat). length (tools cat)) cats)"
  by (simp add: count_tools_def foldl_count_tools)

lemma addToolToDatabase_True:
  assumes "addToolToDatabase now d t = (True, d')"
  shows "\<exists>data cat md. toolsFile d = Some data
     \<and> map_of (categories data) (c_category t) = Some cat
     \<and> find (\<lambda>e. tool_id e = c_id t) (tools cat) = None
     \<and> metadata data = Some md \<and> toolsWritable d
     \<and> d' = d\<lparr>toolsFile := Some \<lparr>categories = push_tool (c_category t) (toolEntry t) (categories data),
            metadata = Some (md\<lparr>totalTools := count_tools (push_tool (c_category t) (toolEntry t) (categories data)),
                                lastUpdated := today now\<rparr>)\<rparr>\<rparr>"
  using assms
  by (auto simp: addToolToDatabase_def Let_def split: option.splits if_splits)

lemma addToolToDatabase_False:
  assumes "addToolToDatabase now d t = (False, d')"
  shows "d' = d"
  using assms
  by (auto simp: addToolToDatabase_def Let_def split: option.splits if_splits)

lemma logDiscovery_toolsFile [simp]: "toolsFile (logDiscovery now d t) = toolsFile d"
  by (simp add: logDiscovery_def Let_def split: option.splits)

lemma discover_success:
  assumes "discoverToolByUrl cap now d u = Inr (res, d')" "dr_success res"
  shows "\<exists>rawData t d1. fetch cap u = Some rawData
     \<and> (\<exists>ids. getExistingToolIds d = Inr ids
           \<and> trim (title_head (toLowerCase (rd_title rawData))) \<notin> set ids)
     \<and> categorizeWithAI cap d rawData = Inr (Some t)
     \<and> addToolToDatabase now d t = (True, d1)
     \<and> d' = logDiscovery now d1 t \<and> dr_tool res = Some t"
  using assms
  by (auto simp: discoverToolByUrl_def Let_def failed_def
      split: sum.splits option.splits if_splits prod.splits bool.splits)

text \<open>
  Claim C6. After a commit that succeeds (\<^const>\<open>addToolToDatabase\<close> returns true, and so after
  a discovery that succeeds), the \<^verbatim>\<open>metadata.totalTools\<close> of the stored catalog is the sum
  of the lengths of the tools arrays of all its categories, whatever the total stored
  before was: it is counted afresh, not incremented.
\<close>

theorem total_recomputed_on_commit:
  "(addToolToDatabase now d t = (True, d') \<longrightarrow>
      (\<exists>db md. toolsFile d' = Some db \<and> metadata db = Some md
         \<and> totalTools md = sum_list (map (\<lambda>(key, cat). length (tools cat)) (categories db))))
   \<and> (discoverToolByUrl cap now d u = Inr (res, d') \<and> dr_success res \<longrightarrow>
      (\<exists>db md. toolsFile d' = Some db \<and> metadata db = Some md
         \<and> totalTools md = sum_list (map (\<lambda>(key, cat). length (tools cat)) (categories db))))"
proof (intro conjI impI)
  assume "addToolToDatabase now d t = (True, d')"
  from addToolToDatabase_True [OF this]
  show "\<exists>db md. toolsFile d' = Some db \<and> metadata db = Some md
         \<and> totalTools md = sum_list (map (\<lambda>(key, cat). length (tools cat)) (categories db))"
    by (auto simp: count_tools_sum)
next
  assume "discoverToolByUrl cap now d u = Inr (res, d') \<and> dr_success res"
  then obtain t d1 where a: "addToolToDatabase now d t = (True, d1)"
    and d': "d' = logDiscovery now d1 t"
    using discover_success by blast
  from addToolToDatabase_True [OF a]
  show "\<exists>db md. toolsFile d' = Some db \<and> metadata db = Some md
         \<and> totalTools md = sum_list (map (\<lambda>(key, cat). length (tools cat)) (categories db))"
    unfolding d' by (auto simp: count_tools_sum)
qed

theorem total_recomputed_on_commit_witness:
  "(\<exists>d'. addToolToDatabase ''2026-02-03T10:00:00.000Z'' drifted_disk canva_entry = (True, d')
      \<and> map_option (map_option totalTools \<circ> metadata) (toolsFile drifted_disk) = Some (Some 3)
      \<and> map_option (map_option totalTools \<circ> metadata) (toolsFile d') = Some (Some 12))
   \<and> (\<exists>res d'. discoverToolByUrl demo_caps ''2026-02-03T10:00:00.000Z'' drifted_disk
          ''https://www.canva.com'' = Inr (res, d') \<and> dr_success res
      \<and> map_option (map_option totalTools \<circ> metadata) (toolsFile d') = Some (Some 12))"
proof -
  obtain b d1 where a: "addToolToDatabase ''2026-02-03T10:00:00.000Z'' drifted_disk canva_entry = (b, d1)"
    by (cases "addToolToDatabase ''2026-02-03T10:00:00.000Z'' drifted_disk canva_entry")
  have "fst (addToolToDatabase ''2026-02-03T10:00:00.000Z'' drifted_disk canva_entry)" by code_simp
  with a have b: "b" by simp
  have n1: "map_option (map_option totalTools \<circ> metadata) (toolsFile drifted_disk) = Some (Some 3)"
    by code_simp
  have n2: "map_option (map_option totalTools \<circ> metadata)
      (toolsFile (snd (addToolToDatabase ''2026-02-03T10:00:00.000Z'' drifted_disk canva_entry)))
      = Some (Some 12)"
    by code_simp
  have s: "case discoverToolByUrl demo_caps ''2026-02-03T10:00:00.000Z'' drifted_disk
          ''https://www.canva.com'' of
        Inl e \<Rightarrow> False
      | Inr (res, d') \<Rightarrow> dr_success res
          \<and> map_option (map_option totalTools \<circ> metadata) (toolsFile d') = Some (Some 12)"
    by code_simp
  then obtain res d2 where r: "discoverToolByUrl demo_caps ''2026-02-03T10:00:00.000Z'' drifted_disk
          ''https://www.canva.com'' = Inr (res, d2)" and ok: "dr_success res"
    and n3: "map_option (map_option totalTools \<circ> metadata) (toolsFile d2) = Some (Some 12)"
    by (auto split: sum.splits prod.splits)
  note inst = total_recomputed_on_commit [of "''2026-02-03T10:00:00.000Z''" drifted_disk canva_entry d1
      demo_caps "''https://www.canva.com''" res]
  from inst a b n1 n2 r ok n3 show ?thesis by auto
qed

text \<open>
  Claim C7 fails on the code. The commit looks for the new id only among the tools of the
  target category, and the check before it compares the name read off the page title, not
  the classified id, with the ids and names of the catalog. Discovering the Canva page,
  classified as \<^verbatim>\<open>canva\<close> in \<^verbatim>\<open>design\<close>, on a catalog whose ids are distinct and that has
  \<^verbatim>\<open>canva\<close> in \<^verbatim>\<open>image_editing\<close>, succeeds and leaves the id in both categories.
\<close>

theorem discovery_repeats_id_across_categories:
  "distinct (catalog_ids demo_catalog)
   \<and> toolsFile demo_disk = Some demo_catalog
   \<and> (case discoverToolByUrl demo_caps ''2026-02-03T10:00:00.000Z'' demo_disk ''https://www.canva.com'' of
         Inl e \<Rightarrow> False
       | Inr (res, d') \<Rightarrow> dr_success res
           \<and> (case toolsFile d' of
                  None \<Rightarrow> False
                | Some db \<Rightarrow> \<not> distinct (catalog_ids db)
                    \<and> map (\<lambda>(key, cat). (key, length (filter (\<lambda>t. tool_id t = ''canva'') (tools cat))))
                         (categories db)
                      = [(''app_building'', 0), (''image_generation'', 0), (''image_editing'', 1),
                         (''coding_assistance'', 0), (''writing'', 0), (''design'', 1)]))"
  by code_simp

text \<open>
  Claim C8. When the classification answers \<^verbatim>\<open>isAITool: false\<close> for the fetched page,
  \<^const>\<open>discoverToolByUrl\<close> returns \<^verbatim>\<open>success: false\<close> and both files are as before: the
  catalog, its total included, and the discovery log. The error is "Not identified as an
  AI tool", unless the title's name is already in the catalog, which is reported first.
\<close>

theorem rejected_candidate_changes_nothing:
  assumes "groq cap = Some classify" and "fetch cap u = Some rawData"
    and "toolsFile d = Some db"
    and "classify (map (\<lambda>(key, cat). (key, cat_name cat)) (categories db)) rawData = GroqJson r"
    and "\<not> isAITool r"
  shows "\<exists>res. discoverToolByUrl cap now d u = Inr (res, d)
     \<and> \<not> dr_success res \<and> dr_tool res = None
     \<and> (case getExistingToolIds d of
          Inl e \<Rightarrow> False
        | Inr ids \<Rightarrow>
            dr_error res = Some (if trim (title_head (toLowerCase (rd_title rawData))) \<in> set ids
                                 then ''Tool already exists in database''
                                 else ''Not identified as an AI tool''))"
proof -
  have cat: "categorizeWithAI cap d rawData = Inr None"
    using assms by (simp add: categorizeWithAI_def getExistingCategories_def)
  obtain ids where ids: "getExistingToolIds d = Inr ids"
    using assms(3) by (simp add: getExistingToolIds_def)
  show ?thesis
    using assms(2) cat ids
    by (simp add: discoverToolByUrl_def Let_def failed_def)
qed

theorem rejected_candidate_changes_nothing_witness:
  "groq demo_caps = Some demo_groq \<and> fetch demo_caps ''https://example.com'' = Some example_page
   \<and> toolsFile demo_disk = Some demo_catalog
   \<and> demo_groq (map (\<lambda>(key, cat). (key, cat_name cat)) (categories demo_catalog)) example_page
       = GroqJson not_a_tool
   \<and> \<not> isAITool not_a_tool
   \<and> (\<exists>res. discoverToolByUrl demo_caps ''2026-02-03T10:00:00.000Z'' demo_disk ''https://example.com''
          = Inr (res, demo_disk)
        \<and> \<not> dr_success res \<and> dr_error res = Some ''Not identified as an AI tool'')"
proof -
  have h1: "groq demo_caps = Some demo_groq" by (simp add: demo_caps_def)
  have h2: "fetch demo_caps ''https://example.com'' = Some example_page"
    by (simp add: demo_caps_def demo_fetch_def)
  have h3: "toolsFile demo_disk = Some demo_catalog" by (simp add: demo_disk_def)
  have h4: "demo_groq (map (\<lambda>(key, cat). (key, cat_name cat)) (categories demo_catalog)) example_page
       = GroqJson not_a_tool"
    by (simp add: demo_groq_def example_page_def mk_page_def)
  have h5: "\<not> isAITool not_a_tool" by (simp add: not_a_tool_def)
  have new: "case getExistingToolIds demo_disk of
               Inl e \<Rightarrow> False
             | Inr ids \<Rightarrow> trim (title_head (toLowerCase (rd_title example_page))) \<notin> set ids"
    by code_simp
  from rejected_candidate_changes_nothing [OF h1 h2 h3 h4 h5, of "''2026-02-03T10:00:00.000Z''"]
    new h1 h2 h3 h4 h5
  show ?thesis by (auto split: sum.splits if_splits)
qed




lemma getExistingCategories_logDiscovery [simp]:
  "getExistingCategories (logDiscovery now d t) = getExistingCategories d"
  by (simp add: getExistingCategories_def)

lemma getExistingToolIds_logDiscovery [simp]:
  "getExistingToolIds (logDiscovery now d t) = getExistingToolIds d"
  by (simp add: getExistingToolIds_def)





text \<open>
  Claim C10. \<^const>\<open>basicCategorize\<close> rejects nothing: its entry always has
  \<^verbatim>\<open>isAITool: true\<close>, pricing \<^verbatim>\<open>{free: true, premium: null}\<close> and ease 3. Without the Groq
  capability, or when its call throws, \<^const>\<open>categorizeWithAI\<close> returns that entry, so a
  discovery on this path never ends with "Not identified as an AI tool".
\<close>

theorem basicCategorize_never_rejects:
  "isAITool (basicCategorize to_json toolData)
   \<and> c_pricing (basicCategorize to_json toolData) = \<lparr>free = True, premium = None\<rparr>
   \<and> c_ease (basicCategorize to_json toolData) = Some 3
   \<and> (groq cap = None \<or> (\<exists>classify db. groq cap = Some classify \<and> toolsFile d = Some db
          \<and> classify (map (\<lambda>(key, cat). (key, cat_name cat)) (categories db)) toolData = GroqThrows)
       \<longrightarrow> categorizeWithAI cap d toolData = Inr (Some (basicCategorize (stringify cap) toolData)))
   \<and> (groq cap = None \<or> (\<exists>classify db rawData. groq cap = Some classify \<and> toolsFile d = Some db
          \<and> fetch cap u = Some rawData
          \<and> classify (map (\<lambda>(key, cat). (key, cat_name cat)) (categories db)) rawData = GroqThrows)
       \<longrightarrow> (\<forall>res d'. discoverToolByUrl cap now d u = Inr (res, d')
             \<longrightarrow> dr_error res \<noteq> Some ''Not identified as an AI tool''))"
proof (intro conjI impI allI)
  show "isAITool (basicCategorize to_json toolData)"
    by (simp add: basicCategorize_def Let_def)
  show "c_pricing (basicCategorize to_json toolData) = \<lparr>free = True, premium = None\<rparr>"
    by (simp add: basicCategorize_def Let_def)
  show "c_ease (basicCategorize to_json toolData) = Some 3"
    by (simp add: basicCategorize_def Let_def)
next
  assume "groq cap = None \<or> (\<exists>classify db. groq cap = Some classify \<and> toolsFile d = Some db
          \<and> classify (map (\<lambda>(key, cat). (key, cat_name cat)) (categories db)) toolData = GroqThrows)"
  then show "categorizeWithAI cap d toolData = Inr (Some (basicCategorize (stringify cap) toolData))"
    by (auto simp: categorizeWithAI_def getExistingCategories_def)
next
  fix res d'
  assume path: "groq cap = None \<or> (\<exists>classify db rawData. groq cap = Some classify \<and> toolsFile d = Some db
          \<and> fetch cap u = Some rawData
          \<and> classify (map (\<lambda>(key, cat). (key, cat_name cat)) (categories db)) rawData = GroqThrows)"
    and run: "discoverToolByUrl cap now d u = Inr (res, d')"
  show "dr_error res \<noteq> Some ''Not identified as an AI tool''"
  proof (cases "fetch cap u")
    case None
    with run show ?thesis
      by (auto simp: discoverToolByUrl_def failed_def split: sum.splits)
  next
    case (Some rawData)
    have cat: "categorizeWithAI cap d rawData
        = Inr (Some (basicCategorize (stringify cap) rawData))"
      using path Some by (auto simp: categorizeWithAI_def getExistingCategories_def)
    obtain b d1 where add: "addToolToDatabase now d (basicCategorize (stringify cap) rawData) = (b, d1)"
      by (cases "addToolToDatabase now d (basicCategorize (stringify cap) rawData)")
    from run show ?thesis
      by (cases b)
        (auto simp: discoverToolByUrl_def Let_def failed_def Some cat add
          split: sum.splits if_splits)
  qed
qed

theorem basicCategorize_never_rejects_witness:
  "groq offline_caps = None
   \<and> isAITool (basicCategorize demo_stringify example_page)
   \<and> c_pricing (basicCategorize demo_stringify example_page) = \<lparr>free = True, premium = None\<rparr>
   \<and> c_ease (basicCategorize demo_stringify example_page) = Some 3
   \<and> categorizeWithAI offline_caps demo_disk example_page
       = Inr (Some (basicCategorize (stringify offline_caps) example_page))
   \<and> (\<exists>res d'. discoverToolByUrl offline_caps ''2026-02-03T10:00:00.000Z'' demo_disk
          ''https://example.com'' = Inr (res, d')
        \<and> dr_success res \<and> dr_error res \<noteq> Some ''Not identified as an AI tool'')"
proof -
  have h: "groq offline_caps = None" by (simp add: offline_caps_def)
  have "case discoverToolByUrl offline_caps ''2026-02-03T10:00:00.000Z'' demo_disk
          ''https://example.com'' of Inl e \<Rightarrow> False | Inr (res, d') \<Rightarrow> dr_success res"
    by code_simp
  then obtain res d' where run: "discoverToolByUrl offline_caps ''2026-02-03T10:00:00.000Z'' demo_disk
          ''https://example.com'' = Inr (res, d')" and ok: "dr_success res"
    by (auto split: sum.splits prod.splits)
  from basicCategorize_never_rejects [of demo_stringify example_page offline_caps demo_disk
      "''https://example.com''" "''2026-02-03T10:00:00.000Z''"] h run ok
  show ?thesis by auto
qed

section \<open>The conversation handler\<close>







end
